theory Spec2Isabelle
  imports Complex_Main
begin

section \<open>The game-session coordinator of app.py\<close>

text \<open>
  app.py keeps two module globals, \<open>board\<close> and \<open>player_name\<close>, and appends result
  records to the file at \<open>RESULTS_PATH\<close>. Each route handler is modelled as a function
  from the session state (and the request) to the JSON response and the new state.

  The rules engine (the \<open>chess\<close> package), the search engine started through
  \<open>chess.engine\<close>, the random source, the clock and the file system are not part of the
  repository: they are parameters of the model.
\<close>

subsection \<open>JSON values\<close>

datatype jvalue = JNull | JBool bool | JStr string | JList "string list"

text \<open>The argument of \<open>jsonify\<close>: the keys in the order the handler writes them.\<close>

type_synonym response = "(string \<times> jvalue) list"

text \<open>
  The decoded request body: \<open>None\<close> when \<open>request.get_json()\<close> gives nothing, otherwise
  a dictionary. The fields the handlers read are JSON strings.
\<close>

type_synonym body = "(string \<rightharpoonup> string) option"

definition get_json_or_empty :: "body \<Rightarrow> (string \<rightharpoonup> string)" where
  \<comment> \<open>\<open>request.get_json() or {}\<close>\<close>
  "get_json_or_empty b = (case b of None \<Rightarrow> Map.empty | Some d \<Rightarrow> d)"

definition dict_get :: "(string \<rightharpoonup> string) \<Rightarrow> string \<Rightarrow> string \<Rightarrow> string" where
  \<comment> \<open>\<open>data.get(key, default)\<close>\<close>
  "dict_get d k dflt = (case d k of None \<Rightarrow> dflt | Some v \<Rightarrow> v)"

subsection \<open>The rules engine, as app.py uses it\<close>

text \<open>
  \<open>'b\<close> is \<open>chess.Board\<close>, \<open>'m\<close> is \<open>chess.Move\<close>, a square is its index.
  \<open>from_uci\<close> and \<open>parse_square\<close> raise on text they cannot read: \<open>Inl\<close> carries
  \<open>str(e)\<close> of the exception.
\<close>

record ('b, 'm) rules_engine =
  Board :: 'b
  fen :: "'b \<Rightarrow> string"
  turn :: "'b \<Rightarrow> bool"
  legal_moves :: "'b \<Rightarrow> 'm list"
  push :: "'b \<Rightarrow> 'm \<Rightarrow> 'b"
  is_game_over :: "'b \<Rightarrow> bool"
  result :: "'b \<Rightarrow> string"
  from_uci :: "string \<Rightarrow> string + 'm"
  uci :: "'m \<Rightarrow> string"
  from_square :: "'m \<Rightarrow> nat"
  parse_square :: "string \<Rightarrow> string + nat"

subsection \<open>What a request finds outside the process\<close>

text \<open>
  \<open>engine_play b t\<close> is the whole attempt
  \<open>with popen_uci(path) as engine: engine.play(b, Limit(time=t)).move\<close>:
  \<open>Inl\<close> when starting, playing or closing raises, \<open>Inr\<close> the move of the result
  (which may be \<open>None\<close>). \<open>random_index\<close> is the draw \<open>random.choice\<close> makes,
  \<open>now\<close> is \<open>str(datetime.datetime.now())\<close>, and \<open>log_writable\<close> tells whether
  creating the directory, opening and writing the results file all succeed.
\<close>

record ('b, 'm) environment =
  os_name_nt :: bool
  platform_linux :: bool
  engine_exists :: bool
  engine_play :: "'b \<Rightarrow> rat \<Rightarrow> string + 'm option"
  random_index :: nat
  now :: string
  log_writable :: bool

subsection \<open>The session state\<close>

text \<open>
  \<open>results_file\<close> is the file at \<open>RESULTS_PATH\<close>, as the list of the texts appended
  to it, oldest first.
\<close>

record 'b session =
  board :: 'b
  player_name :: "string option"
  results_file :: "string list"

definition initial_session :: "('b, 'm) rules_engine \<Rightarrow> 'b session" where
  \<comment> \<open>the globals when the module is loaded: \<open>board = chess.Board()\<close>, \<open>player_name = None\<close>\<close>
  "initial_session R = \<lparr>board = Board R, player_name = None, results_file = []\<rparr>"

subsection \<open>Result text and log\<close>

definition newline :: string where
  "newline = [CHR 0x0A]"

definition get_result_text ::
  "('b, 'm) rules_engine \<Rightarrow> string \<Rightarrow> string \<Rightarrow> string \<Rightarrow> 'b \<Rightarrow> string" where
  "get_result_text R tm player difficulty b =
     (let res = result R b;
          status = (if res = ''1-0'' then ''White wins''
                    else if res = ''0-1'' then ''Black wins''
                    else ''Draw'')
      in ''Game ended at '' @ tm @ newline
         @ ''Player: '' @ player @ newline
         @ ''Difficulty: '' @ difficulty @ newline
         @ ''Result: '' @ status @ '' ('' @ res @ '')'' @ newline
         @ ''Final FEN: '' @ fen R b @ newline
         @ replicate 50 (CHR ''-'') @ newline)"

definition log_result :: "('b, 'm) environment \<Rightarrow> string \<Rightarrow> 'b session \<Rightarrow> 'b session" where
  \<comment> \<open>a failed write is caught and printed; the file is then left as it was\<close>
  "log_result E text s =
     (if log_writable E then s\<lparr>results_file := results_file s @ [text]\<rparr> else s)"

subsection \<open>Move selection\<close>

definition think_times :: "string \<rightharpoonup> rat" where
  "think_times = [''easy'' \<mapsto> 1 / 10, ''medium'' \<mapsto> 1 / 2, ''hard'' \<mapsto> 3 / 2]"

definition think_time :: "string \<Rightarrow> rat" where
  \<comment> \<open>\<open>think_times.get(level, 0.5)\<close>, in seconds\<close>
  "think_time level = (case think_times level of None \<Rightarrow> 1 / 2 | Some t \<Rightarrow> t)"

definition random_choice :: "nat \<Rightarrow> 'a list \<Rightarrow> 'a" where
  \<comment> \<open>\<open>random.choice(xs)\<close> on a non-empty list: the element at a drawn index below \<open>len(xs)\<close>\<close>
  "random_choice k xs = xs ! (k mod length xs)"

definition get_ai_move ::
  "('b, 'm) rules_engine \<Rightarrow> ('b, 'm) environment \<Rightarrow> string \<Rightarrow> 'b \<Rightarrow> 'm option" where
  "get_ai_move R E level b =
     (let is_windows = os_name_nt E;
          on_render = platform_linux E;
          legal = legal_moves R b;
          fallback = (if legal = [] then None
                      else Some (random_choice (random_index E) legal))
      in if is_windows \<and> \<not> on_render then
           (if engine_exists E then
              (case engine_play E b (think_time level) of
                 Inr mv \<Rightarrow> mv
               | Inl e \<Rightarrow> fallback)
            else fallback)
         else fallback)"

subsection \<open>The route handlers\<close>

definition get_state :: "('b, 'm) rules_engine \<Rightarrow> 'b session \<Rightarrow> response" where
  "get_state R s =
     [(''fen'', JStr (fen R (board s))),
      (''turn'', JStr (if turn R (board s) then ''white'' else ''black'')),
      (''game_over'', JBool (is_game_over R (board s))),
      (''player'', (case player_name s of None \<Rightarrow> JNull | Some p \<Rightarrow> JStr p))]"

definition start_game ::
  "('b, 'm) rules_engine \<Rightarrow> body \<Rightarrow> 'b session \<Rightarrow> response \<times> 'b session" where
  "start_game R rq s =
     (let data = get_json_or_empty rq;
          name = dict_get data ''player'' ''Guest'';
          s' = s\<lparr>board := Board R, player_name := Some name\<rparr>
      in ([(''status'', JStr ''started''),
           (''player'', JStr name),
           (''fen'', JStr (fen R (board s')))], s'))"

definition end_game :: "('b, 'm) rules_engine \<Rightarrow> 'b session \<Rightarrow> response \<times> 'b session" where
  "end_game R s =
     (let s' = s\<lparr>board := Board R\<rparr>
      in ([(''status'', JStr ''reset''), (''fen'', JStr (fen R (board s')))], s'))"

definition valid_moves :: "('b, 'm) rules_engine \<Rightarrow> string \<Rightarrow> 'b session \<Rightarrow> response" where
  "valid_moves R square s =
     (case parse_square R square of
        Inr sq \<Rightarrow>
          [(''moves'', JList (map (uci R) (filter (\<lambda>m. from_square R m = sq)
                                                (legal_moves R (board s)))))]
      | Inl e \<Rightarrow> [(''moves'', JList [])])"

definition finished ::
  "('b, 'm) rules_engine \<Rightarrow> ('b, 'm) environment \<Rightarrow> string \<Rightarrow> string \<Rightarrow> 'b session
     \<Rightarrow> response \<times> 'b session" where
  \<comment> \<open>the block both \<open>if board.is_game_over()\<close> branches of \<open>player_move\<close> share\<close>
  "finished R E player difficulty s =
     (let result_text = get_result_text R (now E) player difficulty (board s)
      in ([(''status'', JStr ''finished''),
           (''result'', JStr result_text),
           (''fen'', JStr (fen R (board s)))], log_result E result_text s))"

definition player_move ::
  "('b, 'm) rules_engine \<Rightarrow> ('b, 'm) environment \<Rightarrow> body \<Rightarrow> 'b session
     \<Rightarrow> response \<times> 'b session" where
  "player_move R E rq s =
     (let data = get_json_or_empty rq;
          move_uci = data ''move'';
          difficulty = dict_get data ''difficulty'' ''medium'';
          player = dict_get data ''player'' ''Guest'';
          missing = ([(''status'', JStr ''error''), (''message'', JStr ''Missing move''),
                      (''fen'', JStr (fen R (board s)))], s)
      in case move_uci of
           None \<Rightarrow> missing
         | Some text \<Rightarrow>
             if text = [] then missing
             else
               (case from_uci R text of
                  Inl e \<Rightarrow>
                    ([(''status'', JStr ''error''), (''message'', JStr e),
                      (''fen'', JStr (fen R (board s)))], s)
                | Inr mv \<Rightarrow>
                    if mv \<notin> set (legal_moves R (board s)) then
                      ([(''status'', JStr ''illegal''), (''fen'', JStr (fen R (board s)))], s)
                    else
                      (let s1 = s\<lparr>board := push R (board s) mv\<rparr>
                       in if is_game_over R (board s1)
                          then finished R E player difficulty s1
                          else
                            (case get_ai_move R E difficulty (board s1) of
                               None \<Rightarrow>
                                 ([(''status'', JStr ''ok''), (''ai'', JNull),
                                   (''fen'', JStr (fen R (board s1)))], s1)
                             | Some ai_move \<Rightarrow>
                                 (let s2 = s1\<lparr>board := push R (board s1) ai_move\<rparr>
                                  in if is_game_over R (board s2)
                                     then finished R E player difficulty s2
                                     else
                                       ([(''status'', JStr ''ok''),
                                         (''ai'', JStr (uci R ai_move)),
                                         (''fen'', JStr (fen R (board s2)))], s2))))))"

subsection \<open>A small rules engine to run the handlers on\<close>

text \<open>
  One piece on the squares a1 to a5 of a file; a board is the index of the piece's square.
  From a1, a2 and a3 the piece steps one or two squares up. The game is over from a3 on:
  on a3 it is drawn although two moves are still legal (as the \<open>chess\<close> package reports a
  game over by insufficient material, by the seventy-five-move rule or by fivefold
  repetition while moves remain legal); on a4 and a5 it is won and no move is legal.
\<close>

definition file_squares :: "(string \<times> nat) list" where
  "file_squares = [(''a1'', 0), (''a2'', 1), (''a3'', 2), (''a4'', 3), (''a5'', 4)]"

definition square_name :: "nat \<Rightarrow> string" where
  "square_name q = (if q < 5 then map fst file_squares ! q else ''??'')"

definition file_engine :: "(nat, nat \<times> nat) rules_engine" where
  "file_engine =
     \<lparr>Board = 0,
      fen = square_name,
      turn = even,
      legal_moves = (\<lambda>b. if b \<le> 2 then [(b, b + 1), (b, b + 2)] else []),
      push = (\<lambda>b mv. snd mv),
      is_game_over = (\<lambda>b. 2 \<le> b),
      result = (\<lambda>b. if b = 2 then ''1/2-1/2'' else if b = 3 then ''1-0''
                     else if b = 4 then ''0-1'' else ''*''),
      from_uci = (\<lambda>text.
        if length text = 4 then
          (case map_of file_squares (take 2 text) of
             None \<Rightarrow> Inl ''invalid uci''
           | Some f \<Rightarrow>
               (case map_of file_squares (drop 2 text) of
                  None \<Rightarrow> Inl ''invalid uci''
                | Some t \<Rightarrow> Inr (f, t)))
        else Inl ''expected uci string to be of length 4 or 5''),
      uci = (\<lambda>mv. square_name (fst mv) @ square_name (snd mv)),
      from_square = fst,
      parse_square = (\<lambda>text.
        case map_of file_squares text of
          None \<Rightarrow> Inl ''not in list''
        | Some q \<Rightarrow> Inr q)\<rparr>"

text \<open>A host without the search engine (Linux), and a Windows host whose engine fails.\<close>

definition linux_host :: "(nat, nat \<times> nat) environment" where
  "linux_host =
     \<lparr>os_name_nt = False, platform_linux = True, engine_exists = False,
      engine_play = (\<lambda>b t. Inl ''not started''),
      random_index = 0, now = ''2025-01-01 12:00:00'', log_writable = True\<rparr>"

definition windows_host_failing :: "(nat, nat \<times> nat) environment" where
  "windows_host_failing =
     \<lparr>os_name_nt = True, platform_linux = False, engine_exists = True,
      engine_play = (\<lambda>b t. Inl ''engine process died''),
      random_index = 1, now = ''2025-01-01 12:00:00'', log_writable = True\<rparr>"

text \<open>
  A session started by Alice, and the session after her first move a1a3, which ends the
  game as a draw on a3.
\<close>

definition alice_session :: "nat session" where
  "alice_session =
     snd (start_game file_engine (Some [''player'' \<mapsto> ''Alice''])
            (initial_session file_engine))"

definition drawn_session :: "nat session" where
  "drawn_session =
     snd (player_move file_engine linux_host (Some [''move'' \<mapsto> ''a1a3'']) alice_session)"

section \<open>Properties of the handlers\<close>

subsection \<open>Submitting a move\<close>

text \<open>
  C10. A request whose move field is the empty string is answered as a missing move:
  status \<open>error\<close>, message \<open>Missing move\<close> and the current position, and the session
  is left as it was. The text never reaches \<open>from_uci\<close>.
\<close>

theorem player_move_empty_text_is_missing:
  assumes "rq = Some d" and "d ''move'' = Some []"
  shows "player_move R E rq s =
           ([(''status'', JStr ''error''), (''message'', JStr ''Missing move''),
             (''fen'', JStr (fen R (board s)))], s)"
  using assms by (simp add: player_move_def get_json_or_empty_def)

theorem player_move_empty_text_is_missing_witness:
  "player_move file_engine linux_host (Some [''move'' \<mapsto> []]) (initial_session file_engine) =
     ([(''status'', JStr ''error''), (''message'', JStr ''Missing move''),
       (''fen'', JStr ''a1'')], initial_session file_engine)"
  using player_move_empty_text_is_missing
          [of "Some [''move'' \<mapsto> []]" "[''move'' \<mapsto> []]" file_engine linux_host
              "initial_session file_engine"]
  by (simp add: file_engine_def initial_session_def square_name_def file_squares_def)

text \<open>
  C1. A move text that \<open>from_uci\<close> reads but whose move is not among the legal moves of
  the current board is answered with status \<open>illegal\<close> and the position as it was, and
  the session is returned unchanged: the board is the same, no move is applied and
  nothing is appended to the results file.
\<close>

theorem player_move_illegal_keeps_state:
  assumes "get_json_or_empty rq ''move'' = Some text" and "text \<noteq> []"
    and "from_uci R text = Inr mv" and "mv \<notin> set (legal_moves R (board s))"
  shows "player_move R E rq s =
           ([(''status'', JStr ''illegal''), (''fen'', JStr (fen R (board s)))], s)"
  using assms by (simp add: player_move_def)

theorem player_move_illegal_keeps_state_witness:
  "player_move file_engine linux_host (Some [''move'' \<mapsto> ''a1a5''])
       (initial_session file_engine) =
     ([(''status'', JStr ''illegal''), (''fen'', JStr ''a1'')], initial_session file_engine)"
  using player_move_illegal_keeps_state
          [of "Some [''move'' \<mapsto> ''a1a5'']" "''a1a5''" file_engine "(0, 4)"
              "initial_session file_engine" linux_host]
  by (simp add: get_json_or_empty_def file_engine_def initial_session_def square_name_def
        file_squares_def)

subsection \<open>Starting and resetting\<close>

text \<open>
  C6. From any session, \<open>start_game\<close> and \<open>end_game\<close> put the board back to
  \<open>chess.Board()\<close> and answer with its position string; calling either a second time
  changes nothing more, and each one after the other still gives the initial board.
\<close>

theorem start_and_reset_yield_initial_position:
  "board (snd (start_game R rq s)) = Board R
   \<and> map_of (fst (start_game R rq s)) ''fen'' = Some (JStr (fen R (Board R)))
   \<and> board (snd (end_game R s)) = Board R
   \<and> map_of (fst (end_game R s)) ''fen'' = Some (JStr (fen R (Board R)))
   \<and> start_game R rq (snd (start_game R rq s)) = start_game R rq s
   \<and> end_game R (snd (end_game R s)) = end_game R s
   \<and> board (snd (start_game R rq (snd (end_game R s)))) = Board R
   \<and> board (snd (end_game R (snd (start_game R rq s)))) = Board R"
  by (simp add: start_game_def end_game_def Let_def)

text \<open>
  C5, as the code has it. \<open>start_game\<close> resets the board to \<open>chess.Board()\<close>, answers
  with its position string, and stores the name of the request; the name is
  \<open>Guest\<close> when the request has no body or no \<open>player\<close> field. A name that is
  present is stored as given, the empty string included.
\<close>

theorem start_game_sets_board_and_name:
  "board (snd (start_game R rq s)) = Board R
   \<and> player_name (snd (start_game R rq s)) =
       Some (case rq of None \<Rightarrow> ''Guest''
             | Some d \<Rightarrow> (case d ''player'' of None \<Rightarrow> ''Guest'' | Some n \<Rightarrow> n))
   \<and> map_of (fst (start_game R rq s)) ''fen'' = Some (JStr (fen R (Board R)))"
  by (simp add: start_game_def get_json_or_empty_def dict_get_def Let_def split: option.splits)

text \<open>An empty name is not replaced by \<open>Guest\<close>.\<close>

theorem start_game_empty_name_counterexample:
  "player_name (snd (start_game file_engine (Some [''player'' \<mapsto> []])
                       (initial_session file_engine))) = Some []
   \<and> player_name (snd (start_game file_engine (Some [''player'' \<mapsto> []])
                       (initial_session file_engine))) \<noteq> Some ''Guest''"
  by (simp add: start_game_def get_json_or_empty_def dict_get_def Let_def)

text \<open>
  C3, as the code has it. \<open>end_game\<close> resets the board as \<open>start_game\<close> does and
  leaves the stored player name and the results file as they were: its session is the
  one \<open>start_game\<close> gives, with the name put back. It answers with status \<open>reset\<close>
  and the initial position string.
\<close>

theorem end_game_resets_board_only:
  "snd (end_game R s) = (snd (start_game R rq s))\<lparr>player_name := player_name s\<rparr>
   \<and> board (snd (end_game R s)) = Board R
   \<and> player_name (snd (end_game R s)) = player_name s
   \<and> results_file (snd (end_game R s)) = results_file s
   \<and> fst (end_game R s) = [(''status'', JStr ''reset''), (''fen'', JStr (fen R (Board R)))]"
  by (simp add: start_game_def end_game_def Let_def)

text \<open>After Alice's session is reset, the stored name is still hers.\<close>

theorem end_game_keeps_name_counterexample:
  "player_name alice_session = Some ''Alice''
   \<and> player_name (snd (end_game file_engine alice_session)) = Some ''Alice''
   \<and> snd (end_game file_engine alice_session) \<noteq> snd (start_game file_engine None alice_session)"
  by (simp add: alice_session_def start_game_def end_game_def get_json_or_empty_def
        dict_get_def Let_def initial_session_def)

subsection \<open>A move submitted when the game is over\<close>

text \<open>
  C2, as the code has it. \<open>player_move\<close> does not look at \<open>is_game_over\<close> before it
  applies the submitted move: the only gate is membership in the legal moves. On a board
  where the game is over and no move is legal, every submission is rejected (as missing,
  unreadable or illegal) and the session stays as it was. On a board where the game is
  over and the submitted move is legal, the move is applied: the new board is the one
  after that move, or after it and the automated reply, and the answer is \<open>finished\<close>
  or \<open>ok\<close>; when the game is still over after the move, the answer is \<open>finished\<close>
  with the position after the move. \<open>start_game\<close> and \<open>end_game\<close> put the board back
  to the initial one.
\<close>

theorem player_move_in_terminal_state:
  assumes "is_game_over R (board s)"
  shows "(legal_moves R (board s) = [] \<longrightarrow>
            snd (player_move R E rq s) = s
          \<and> (map_of (fst (player_move R E rq s)) ''status'' = Some (JStr ''error'')
             \<or> map_of (fst (player_move R E rq s)) ''status'' = Some (JStr ''illegal''))
          \<and> map_of (fst (player_move R E rq s)) ''fen'' = Some (JStr (fen R (board s))))
       \<and> (\<forall>text mv. get_json_or_empty rq ''move'' = Some text \<and> text \<noteq> []
              \<and> from_uci R text = Inr mv \<and> mv \<in> set (legal_moves R (board s)) \<longrightarrow>
            (board (snd (player_move R E rq s)) = push R (board s) mv
             \<or> (\<exists>ai. board (snd (player_move R E rq s)) = push R (push R (board s) mv) ai))
          \<and> (map_of (fst (player_move R E rq s)) ''status'' = Some (JStr ''finished'')
             \<or> map_of (fst (player_move R E rq s)) ''status'' = Some (JStr ''ok''))
          \<and> (is_game_over R (push R (board s) mv) \<longrightarrow>
                board (snd (player_move R E rq s)) = push R (board s) mv
              \<and> map_of (fst (player_move R E rq s)) ''status'' = Some (JStr ''finished'')
              \<and> map_of (fst (player_move R E rq s)) ''fen'' =
                  Some (JStr (fen R (push R (board s) mv)))))
       \<and> board (snd (start_game R rq' s)) = Board R
       \<and> board (snd (end_game R s)) = Board R"
proof -
  have rejected: "snd (player_move R E rq s) = s
          \<and> (map_of (fst (player_move R E rq s)) ''status'' = Some (JStr ''error'')
             \<or> map_of (fst (player_move R E rq s)) ''status'' = Some (JStr ''illegal''))
          \<and> map_of (fst (player_move R E rq s)) ''fen'' = Some (JStr (fen R (board s)))"
    if "legal_moves R (board s) = []"
    using that by (simp add: player_move_def Let_def split: option.splits sum.splits)
  have applied: "(board (snd (player_move R E rq s)) = push R (board s) mv
             \<or> (\<exists>ai. board (snd (player_move R E rq s)) = push R (push R (board s) mv) ai))
          \<and> (map_of (fst (player_move R E rq s)) ''status'' = Some (JStr ''finished'')
             \<or> map_of (fst (player_move R E rq s)) ''status'' = Some (JStr ''ok''))
          \<and> (is_game_over R (push R (board s) mv) \<longrightarrow>
                board (snd (player_move R E rq s)) = push R (board s) mv
              \<and> map_of (fst (player_move R E rq s)) ''status'' = Some (JStr ''finished'')
              \<and> map_of (fst (player_move R E rq s)) ''fen'' =
                  Some (JStr (fen R (push R (board s) mv))))"
    if "get_json_or_empty rq ''move'' = Some t" and "t \<noteq> []"
      and "from_uci R t = Inr mv" and "mv \<in> set (legal_moves R (board s))"
    for t mv
    using that
    by (auto simp: player_move_def finished_def log_result_def Let_def split: option.splits)
  have reset: "board (snd (start_game R rq' s)) = Board R
       \<and> board (snd (end_game R s)) = Board R"
    by (simp add: start_game_def end_game_def Let_def)
  show ?thesis
    using rejected applied reset by blast
qed

theorem player_move_in_terminal_state_witness:
  "is_game_over file_engine 3 \<and> legal_moves file_engine 3 = []
   \<and> player_move file_engine linux_host (Some [''move'' \<mapsto> ''a4a5''])
        \<lparr>board = 3, player_name = Some ''Alice'', results_file = []\<rparr> =
       ([(''status'', JStr ''illegal''), (''fen'', JStr ''a4'')],
        \<lparr>board = 3, player_name = Some ''Alice'', results_file = []\<rparr>)
   \<and> is_game_over file_engine 2 \<and> (2, 3) \<in> set (legal_moves file_engine 2)
   \<and> board (snd (player_move file_engine linux_host (Some [''move'' \<mapsto> ''a3a4''])
                  \<lparr>board = 2, player_name = Some ''Alice'', results_file = []\<rparr>)) = 3
   \<and> map_of (fst (player_move file_engine linux_host (Some [''move'' \<mapsto> ''a3a4''])
                  \<lparr>board = 2, player_name = Some ''Alice'', results_file = []\<rparr>))
        ''status'' = Some (JStr ''finished'')"
proof -
  have over3: "is_game_over file_engine
                 (board \<lparr>board = 3::nat, player_name = Some ''Alice'', results_file = []\<rparr>)"
    by (simp add: file_engine_def)
  have over2: "is_game_over file_engine
                 (board \<lparr>board = 2::nat, player_name = Some ''Alice'', results_file = []\<rparr>)"
    by (simp add: file_engine_def)
  have none3: "legal_moves file_engine 3 = []"
    by (simp add: file_engine_def)
  have parsed: "from_uci file_engine ''a3a4'' = Inr (2, 3)"
    by (simp add: file_engine_def file_squares_def)
  have legal2: "(2, 3) \<in> set (legal_moves file_engine 2)"
    by (simp add: file_engine_def)
  have facts2: "is_game_over file_engine 2 \<and> push file_engine 2 (2, 3) = 3
                \<and> is_game_over file_engine 3 \<and> fen file_engine 3 = ''a4''"
    by (simp add: file_engine_def square_name_def file_squares_def)
  have rejected: "snd (player_move file_engine linux_host (Some [''move'' \<mapsto> ''a4a5''])
                    \<lparr>board = 3, player_name = Some ''Alice'', results_file = []\<rparr>) =
                  \<lparr>board = 3, player_name = Some ''Alice'', results_file = []\<rparr>"
    using player_move_in_terminal_state
            [OF over3, of linux_host "Some [''move'' \<mapsto> ''a4a5'']" None] none3
    by simp
  have applied: "board (snd (player_move file_engine linux_host (Some [''move'' \<mapsto> ''a3a4''])
                  \<lparr>board = 2, player_name = Some ''Alice'', results_file = []\<rparr>)) = 3
     \<and> map_of (fst (player_move file_engine linux_host (Some [''move'' \<mapsto> ''a3a4''])
                  \<lparr>board = 2, player_name = Some ''Alice'', results_file = []\<rparr>))
        ''status'' = Some (JStr ''finished'')"
    using player_move_in_terminal_state
            [OF over2, of linux_host "Some [''move'' \<mapsto> ''a3a4'']" None] parsed legal2 facts2
    by (simp add: get_json_or_empty_def)
  have answer: "player_move file_engine linux_host (Some [''move'' \<mapsto> ''a4a5''])
        \<lparr>board = 3, player_name = Some ''Alice'', results_file = []\<rparr> =
       ([(''status'', JStr ''illegal''), (''fen'', JStr ''a4'')],
        \<lparr>board = 3, player_name = Some ''Alice'', results_file = []\<rparr>)"
    by (simp add: file_engine_def player_move_def get_json_or_empty_def dict_get_def
        file_squares_def square_name_def)
  show ?thesis
    using facts2 none3 legal2 rejected applied answer by simp
qed

text \<open>
  Alice's game is over on a3, by a draw that leaves moves legal. Her next move a3a4 is
  applied all the same: the board changes and the answer is \<open>finished\<close> once more.
\<close>

theorem terminal_move_applied_counterexample:
  "is_game_over file_engine (board drawn_session)
   \<and> board (snd (player_move file_engine linux_host (Some [''move'' \<mapsto> ''a3a4''])
                  drawn_session)) \<noteq> board drawn_session
   \<and> map_of (fst (player_move file_engine linux_host (Some [''move'' \<mapsto> ''a3a4''])
                  drawn_session)) ''status'' = Some (JStr ''finished'')"
proof -
  have b: "board drawn_session = 2"
    by (simp add: drawn_session_def alice_session_def player_move_def start_game_def
        initial_session_def get_json_or_empty_def dict_get_def file_engine_def
        file_squares_def finished_def log_result_def Let_def)
  show ?thesis
    by (simp add: b player_move_def get_json_or_empty_def dict_get_def file_engine_def
        file_squares_def finished_def log_result_def Let_def)
qed

subsection \<open>Legal moves from a square\<close>

text \<open>
  C9. \<open>valid_moves\<close> answers with the legal moves of the current board whose origin is
  the given square, in the order the rules engine lists them; with the empty list when
  no legal move starts there, or when \<open>parse_square\<close> raises on the text. It always
  answers with a list of moves, each one the notation of a legal move.
\<close>

theorem valid_moves_from_square:
  "(\<forall>sq. parse_square R square = Inr sq \<longrightarrow>
       valid_moves R square s =
         [(''moves'', JList (map (uci R) (filter (\<lambda>m. from_square R m = sq)
                                               (legal_moves R (board s)))))])
   \<and> (\<forall>sq. parse_square R square = Inr sq
            \<and> (\<forall>m \<in> set (legal_moves R (board s)). from_square R m \<noteq> sq) \<longrightarrow>
         valid_moves R square s = [(''moves'', JList [])])
   \<and> (\<forall>e. parse_square R square = Inl e \<longrightarrow> valid_moves R square s = [(''moves'', JList [])])
   \<and> (\<exists>ms. valid_moves R square s = [(''moves'', JList ms)]
          \<and> set ms \<subseteq> uci R ` set (legal_moves R (board s)))"
proof -
  have none: "filter (\<lambda>m. from_square R m = sq) (legal_moves R (board s)) = []"
    if "\<forall>m \<in> set (legal_moves R (board s)). from_square R m \<noteq> sq" for sq
    using that by (simp add: filter_empty_conv)
  show ?thesis
    by (cases "parse_square R square") (auto simp: valid_moves_def none)
qed

theorem valid_moves_from_square_witness:
  "valid_moves file_engine ''a1'' (initial_session file_engine) =
     [(''moves'', JList [''a1a2'', ''a1a3''])]
   \<and> valid_moves file_engine ''a4'' (initial_session file_engine) = [(''moves'', JList [])]
   \<and> valid_moves file_engine ''a9'' (initial_session file_engine) = [(''moves'', JList [])]"
  using valid_moves_from_square [of file_engine "''a1''" "initial_session file_engine"]
    valid_moves_from_square [of file_engine "''a4''" "initial_session file_engine"]
    valid_moves_from_square [of file_engine "''a9''" "initial_session file_engine"]
  by (simp add: file_engine_def initial_session_def square_name_def file_squares_def)

subsection \<open>Move selection without the search engine\<close>

text \<open>
  C7. When the host is not Windows, or is Linux, or the engine file is missing, or the
  attempt to play with the engine raises, \<open>get_ai_move\<close> returns no move exactly when
  no move is legal, and otherwise the legal move at the index \<open>random.choice\<close> draws: a
  member of the legal moves, and for every index below their number the move at that
  index when that index is drawn. The engine's error does not reach the caller.
\<close>

theorem get_ai_move_fallback:
  assumes "\<not> os_name_nt E \<or> platform_linux E \<or> \<not> engine_exists E
           \<or> (\<exists>e. engine_play E b (think_time level) = Inl e)"
  shows "(get_ai_move R E level b = None \<longleftrightarrow> legal_moves R b = [])
       \<and> (\<forall>mv. get_ai_move R E level b = Some mv \<longrightarrow> mv \<in> set (legal_moves R b))
       \<and> (legal_moves R b \<noteq> [] \<longrightarrow>
            get_ai_move R E level b =
              Some (legal_moves R b ! (random_index E mod length (legal_moves R b))))
       \<and> (\<forall>i < length (legal_moves R b).
            random_index E = i \<longrightarrow> get_ai_move R E level b = Some (legal_moves R b ! i))"
proof -
  have fb: "get_ai_move R E level b =
              (if legal_moves R b = [] then None
               else Some (random_choice (random_index E) (legal_moves R b)))"
    using assms by (auto simp: get_ai_move_def Let_def)
  have "random_index E mod length (legal_moves R b) < length (legal_moves R b)"
    if "legal_moves R b \<noteq> []"
    using that by simp
  then show ?thesis
    by (auto simp: fb random_choice_def)
qed

theorem get_ai_move_fallback_witness:
  "get_ai_move file_engine windows_host_failing ''hard'' 1 = Some (1, 3)
   \<and> get_ai_move file_engine windows_host_failing ''hard'' 4 = None
   \<and> get_ai_move file_engine linux_host ''easy'' 1 = Some (1, 2)"
  using get_ai_move_fallback [of windows_host_failing 1 "''hard''" file_engine]
    get_ai_move_fallback [of windows_host_failing 4 "''hard''" file_engine]
    get_ai_move_fallback [of linux_host 1 "''easy''" file_engine]
  by (simp add: file_engine_def windows_host_failing_def linux_host_def)

subsection \<open>The result record\<close>

text \<open>
  C8. The result line of the record is made from \<open>board.result()\<close>: the code \<open>1-0\<close>
  gives \<open>White wins\<close>, the code \<open>0-1\<close> gives \<open>Black wins\<close>, every other code gives
  \<open>Draw\<close>, and the code itself follows the label in brackets.
\<close>

theorem get_result_text_outcome_label:
  fixes R :: "('b, 'm) rules_engine"
  defines "before tm p d \<equiv> ''Game ended at '' @ tm @ newline @ ''Player: '' @ p @ newline
                             @ ''Difficulty: '' @ d @ newline"
    and "after b \<equiv> newline @ ''Final FEN: '' @ fen R b @ newline
                      @ replicate 50 (CHR ''-'') @ newline"
  shows "(result R b = ''1-0'' \<longrightarrow>
            get_result_text R tm p d b = before tm p d @ ''Result: White wins (1-0)'' @ after b)
       \<and> (result R b = ''0-1'' \<longrightarrow>
            get_result_text R tm p d b = before tm p d @ ''Result: Black wins (0-1)'' @ after b)
       \<and> (result R b \<noteq> ''1-0'' \<and> result R b \<noteq> ''0-1'' \<longrightarrow>
            get_result_text R tm p d b =
              before tm p d @ ''Result: Draw ('' @ result R b @ '')'' @ after b)"
  by (simp add: get_result_text_def before_def after_def Let_def)

theorem get_result_text_outcome_label_witness:
  "get_result_text file_engine ''noon'' ''Alice'' ''hard'' 3 =
     ''Game ended at noon'' @ newline @ ''Player: Alice'' @ newline @ ''Difficulty: hard''
     @ newline @ ''Result: White wins (1-0)'' @ newline @ ''Final FEN: a4'' @ newline
     @ replicate 50 (CHR ''-'') @ newline
   \<and> get_result_text file_engine ''noon'' ''Alice'' ''hard'' 4 =
     ''Game ended at noon'' @ newline @ ''Player: Alice'' @ newline @ ''Difficulty: hard''
     @ newline @ ''Result: Black wins (0-1)'' @ newline @ ''Final FEN: a5'' @ newline
     @ replicate 50 (CHR ''-'') @ newline
   \<and> get_result_text file_engine ''noon'' ''Alice'' ''hard'' 2 =
     ''Game ended at noon'' @ newline @ ''Player: Alice'' @ newline @ ''Difficulty: hard''
     @ newline @ ''Result: Draw (1/2-1/2)'' @ newline @ ''Final FEN: a3'' @ newline
     @ replicate 50 (CHR ''-'') @ newline"
  using get_result_text_outcome_label [of file_engine 3 "''noon''" "''Alice''" "''hard''"]
    get_result_text_outcome_label [of file_engine 4 "''noon''" "''Alice''" "''hard''"]
    get_result_text_outcome_label [of file_engine 2 "''noon''" "''Alice''" "''hard''"]
  by (simp add: file_engine_def square_name_def file_squares_def)

subsection \<open>The player written to the log\<close>

text \<open>
  Whenever \<open>player_move\<close> answers \<open>finished\<close>, its answer and session are those of
  the shared closing block, run on the session with some board put in.
\<close>

lemma player_move_finished_or_not:
  "(\<exists>b'. player_move R E rq s =
           finished R E (dict_get (get_json_or_empty rq) ''player'' ''Guest'')
             (dict_get (get_json_or_empty rq) ''difficulty'' ''medium'') (s\<lparr>board := b'\<rparr>))
   \<or> map_of (fst (player_move R E rq s)) ''status'' \<noteq> Some (JStr ''finished'')"
  unfolding player_move_def Let_def
  by (auto split: option.splits sum.splits)

text \<open>Alice's first move a1a3, sent without a \<open>player\<close> field, ends her game.\<close>

lemma alice_first_move:
  "player_move file_engine linux_host (Some [''move'' \<mapsto> ''a1a3'']) alice_session =
     finished file_engine linux_host ''Guest'' ''medium''
       \<lparr>board = 2, player_name = Some ''Alice'', results_file = []\<rparr>"
  by (simp add: alice_session_def player_move_def start_game_def initial_session_def
      get_json_or_empty_def dict_get_def file_engine_def file_squares_def Let_def)

text \<open>
  C4, as the code has it. When a move ends the game and the results file can be written,
  one record is appended to it and returned as the \<open>result\<close> of the answer. The player
  in the record is the \<open>player\<close> field of that request, \<open>Guest\<close> when the request has
  none; the name stored by \<open>start_game\<close> is neither read nor changed. The record holds,
  in this order, the time, the player, the difficulty of the request (\<open>medium\<close> when it
  has none), the outcome with the result code, the final position and a line of dashes.
\<close>

theorem finished_move_logs_request_player:
  assumes "map_of (fst (player_move R E rq s)) ''status'' = Some (JStr ''finished'')"
    and "log_writable E"
  defines "s' \<equiv> snd (player_move R E rq s)"
    and "player \<equiv> (case get_json_or_empty rq ''player'' of None \<Rightarrow> ''Guest'' | Some p \<Rightarrow> p)"
    and "difficulty \<equiv>
           (case get_json_or_empty rq ''difficulty'' of None \<Rightarrow> ''medium'' | Some d \<Rightarrow> d)"
  shows "results_file s' =
           results_file s @ [get_result_text R (now E) player difficulty (board s')]
       \<and> map_of (fst (player_move R E rq s)) ''result'' =
           Some (JStr (get_result_text R (now E) player difficulty (board s')))
       \<and> player_name s' = player_name s
       \<and> get_result_text R (now E) player difficulty (board s') =
           ''Game ended at '' @ now E @ newline
           @ ''Player: '' @ player @ newline
           @ ''Difficulty: '' @ difficulty @ newline
           @ ''Result: '' @ (if result R (board s') = ''1-0'' then ''White wins''
                             else if result R (board s') = ''0-1'' then ''Black wins''
                             else ''Draw'')
           @ '' ('' @ result R (board s') @ '')'' @ newline
           @ ''Final FEN: '' @ fen R (board s') @ newline
           @ replicate 50 (CHR ''-'') @ newline"
proof -
  obtain b' where pm:
    "player_move R E rq s = finished R E player difficulty (s\<lparr>board := b'\<rparr>)"
    using player_move_finished_or_not [of R E rq s] assms(1)
    unfolding player_def difficulty_def dict_get_def by blast
  have st: "s' = s\<lparr>board := b',
                    results_file := results_file s
                      @ [get_result_text R (now E) player difficulty b']\<rparr>"
    unfolding s'_def pm using assms(2) by (simp add: finished_def log_result_def Let_def)
  have bd: "board s' = b'"
    by (simp add: st)
  have logged: "results_file s' =
           results_file s @ [get_result_text R (now E) player difficulty (board s')]"
    unfolding bd by (simp add: st)
  have answered: "map_of (fst (player_move R E rq s)) ''result'' =
           Some (JStr (get_result_text R (now E) player difficulty (board s')))"
    unfolding bd pm by (simp add: finished_def Let_def)
  have name: "player_name s' = player_name s"
    by (simp add: st)
  have layout: "get_result_text R (now E) player difficulty (board s') =
           ''Game ended at '' @ now E @ newline
           @ ''Player: '' @ player @ newline
           @ ''Difficulty: '' @ difficulty @ newline
           @ ''Result: '' @ (if result R (board s') = ''1-0'' then ''White wins''
                             else if result R (board s') = ''0-1'' then ''Black wins''
                             else ''Draw'')
           @ '' ('' @ result R (board s') @ '')'' @ newline
           @ ''Final FEN: '' @ fen R (board s') @ newline
           @ replicate 50 (CHR ''-'') @ newline"
    by (simp add: get_result_text_def Let_def)
  show ?thesis
    using logged answered name layout by blast
qed

theorem finished_move_logs_request_player_witness:
  "map_of (fst (player_move file_engine linux_host (Some [''move'' \<mapsto> ''a1a3'']) alice_session))
      ''status'' = Some (JStr ''finished'')
   \<and> log_writable linux_host
   \<and> player_name alice_session = Some ''Alice''
   \<and> results_file (snd (player_move file_engine linux_host (Some [''move'' \<mapsto> ''a1a3''])
                          alice_session)) =
       [''Game ended at 2025-01-01 12:00:00'' @ newline @ ''Player: Guest'' @ newline
        @ ''Difficulty: medium'' @ newline @ ''Result: Draw (1/2-1/2)'' @ newline
        @ ''Final FEN: a3'' @ newline @ replicate 50 (CHR ''-'') @ newline]"
proof -
  have st: "map_of (fst (player_move file_engine linux_host (Some [''move'' \<mapsto> ''a1a3''])
                       alice_session)) ''status'' = Some (JStr ''finished'')"
    by (simp add: alice_first_move finished_def Let_def)
  have lw: "log_writable linux_host"
    by (simp add: linux_host_def)
  have bd: "board (snd (player_move file_engine linux_host (Some [''move'' \<mapsto> ''a1a3''])
                       alice_session)) = 2"
    by (simp add: alice_first_move finished_def log_result_def Let_def)
  have al: "player_name alice_session = Some ''Alice'' \<and> results_file alice_session = []"
    by (simp add: alice_session_def start_game_def initial_session_def get_json_or_empty_def
        dict_get_def Let_def)
  have record_text: "get_result_text file_engine (now linux_host) ''Guest'' ''medium'' 2 =
       ''Game ended at 2025-01-01 12:00:00'' @ newline @ ''Player: Guest'' @ newline
        @ ''Difficulty: medium'' @ newline @ ''Result: Draw (1/2-1/2)'' @ newline
        @ ''Final FEN: a3'' @ newline @ replicate 50 (CHR ''-'') @ newline"
    by (simp add: get_result_text_def file_engine_def linux_host_def square_name_def
        file_squares_def)
  have logged: "results_file (snd (player_move file_engine linux_host
                    (Some [''move'' \<mapsto> ''a1a3'']) alice_session)) =
                [get_result_text file_engine (now linux_host) ''Guest'' ''medium'' 2]"
    using finished_move_logs_request_player [OF st lw]
    by (simp add: get_json_or_empty_def bd al)
  show ?thesis
    using st lw al logged by (simp add: record_text)
qed

text \<open>
  Alice started the session under her name; the record of her game names \<open>Guest\<close>.
\<close>

theorem log_record_player_counterexample:
  "player_name alice_session = Some ''Alice''
   \<and> player_name drawn_session = Some ''Alice''
   \<and> results_file drawn_session =
       [''Game ended at 2025-01-01 12:00:00'' @ newline @ ''Player: Guest'' @ newline
        @ ''Difficulty: medium'' @ newline @ ''Result: Draw (1/2-1/2)'' @ newline
        @ ''Final FEN: a3'' @ newline @ replicate 50 (CHR ''-'') @ newline]"
proof -
  have al: "player_name alice_session = Some ''Alice''"
    by (simp add: alice_session_def start_game_def initial_session_def get_json_or_empty_def
        dict_get_def Let_def)
  have lw: "log_writable linux_host"
    by (simp add: linux_host_def)
  have record_text: "get_result_text file_engine (now linux_host) ''Guest'' ''medium'' 2 =
       ''Game ended at 2025-01-01 12:00:00'' @ newline @ ''Player: Guest'' @ newline
        @ ''Difficulty: medium'' @ newline @ ''Result: Draw (1/2-1/2)'' @ newline
        @ ''Final FEN: a3'' @ newline @ replicate 50 (CHR ''-'') @ newline"
    by (simp add: get_result_text_def file_engine_def linux_host_def square_name_def
        file_squares_def)
  have ds: "drawn_session =
              \<lparr>board = 2, player_name = Some ''Alice'',
                 results_file = [get_result_text file_engine (now linux_host)
                                   ''Guest'' ''medium'' 2]\<rparr>"
    unfolding drawn_session_def alice_first_move
    using lw by (simp add: finished_def log_result_def Let_def)
  show ?thesis
    using al by (simp add: ds record_text)
qed

end
